theory Spec2Isabelle
  imports Main
begin

section \<open>Sign-In with Ethereum: the session cookie and the API routes\<close>

text \<open>
  The three API routes of the extension (\<^verbatim>\<open>/api/siwe/nonce\<close>, \<^verbatim>\<open>/api/siwe/verify\<close>,
  \<^verbatim>\<open>/api/siwe/session\<close>), the session configuration of \<^verbatim>\<open>utils/siwe.ts\<close> and the
  auto-logout effects of the \<^verbatim>\<open>useSiwe\<close> hook, as functions over the content of the
  encrypted session cookie. Library calls the routes make (iron-session, viem) are inputs
  of the model: what they return is a parameter, and a call that rejects is the value
  \<open>None\<close>.
\<close>

subsection \<open>JavaScript values\<close>

text \<open>
  A field of the request's JSON body. An absent field (\<^verbatim>\<open>undefined\<close>) is \<open>None\<close> of
  \<open>json option\<close>; \<open>JOther\<close> stands for arrays and objects.
\<close>

datatype json = JNull | JBool bool | JNum int | JStr string | JOther

text \<open>
  \<^verbatim>\<open>!v || typeof v !== "string"\<close> is false exactly for a non-empty string; the function
  returns that string.
\<close>

fun nonempty_string :: "json option \<Rightarrow> string option" where
  "nonempty_string (Some (JStr s)) = (if s = [] then None else Some s)"
| "nonempty_string _ = None"

text \<open>
  A chain id as JavaScript holds it: \<^verbatim>\<open>parseSiweMessage\<close> takes it from a run of decimal
  digits with \<^verbatim>\<open>Number\<close>, so it is a non-negative integer or, when the digits are past
  the range of a double, \<^verbatim>\<open>Infinity\<close>.
\<close>

datatype number = Finite nat | Infinity

text \<open>
  The same value in JSON text, which has no \<^verbatim>\<open>Infinity\<close>: \<^verbatim>\<open>JSON.stringify\<close> writes
  \<^verbatim>\<open>null\<close> for it. The sealed session cookie and every response body are JSON.
\<close>

datatype json_number = JsonNumber nat | JsonNull

fun to_json :: "number \<Rightarrow> json_number" where
  "to_json (Finite n) = JsonNumber n"
| "to_json Infinity = JsonNull"

text \<open>Truthiness of an optional string, number and boolean.\<close>

definition truthy_string :: "string option \<Rightarrow> bool" where
  "truthy_string v = (case v of None \<Rightarrow> False | Some s \<Rightarrow> s \<noteq> [])"

definition truthy_number :: "number option \<Rightarrow> bool" where
  "truthy_number v =
     (case v of None \<Rightarrow> False | Some (Finite n) \<Rightarrow> n \<noteq> 0 | Some Infinity \<Rightarrow> True)"

definition truthy_bool :: "bool option \<Rightarrow> bool" where
  "truthy_bool v = (case v of None \<Rightarrow> False | Some b \<Rightarrow> b)"

text \<open>
  A \<^verbatim>\<open>Date\<close> object: a time value in milliseconds since the epoch, or the invalid date,
  whose time value is NaN and for which every comparison is false.
\<close>

datatype date = Date int | InvalidDate

definition date_lt :: "date \<Rightarrow> int \<Rightarrow> bool" where
  "date_lt d now = (case d of Date t \<Rightarrow> t < now | InvalidDate \<Rightarrow> False)"

definition date_gt :: "date \<Rightarrow> int \<Rightarrow> bool" where
  "date_gt d now = (case d of Date t \<Rightarrow> t > now | InvalidDate \<Rightarrow> False)"

subsection \<open>Session data (utils/siwe.ts)\<close>

text \<open>
  \<^verbatim>\<open>SiweSessionData\<close>, as the sealed cookie holds it and as a response body shows it.
  Every field is optional at run time: iron-session hands out the empty object when the
  request carries no valid cookie, and a field assigned \<^verbatim>\<open>undefined\<close> is dropped when
  the session is sealed. The chain id is a number of the JSON text, so it can be
  \<^verbatim>\<open>null\<close>.
\<close>

record SiweSessionData =
  address :: "string option"
  chainId :: "json_number option"
  nonce :: "string option"
  isLoggedIn :: "bool option"
  signedInAt :: "int option"

definition emptySession :: SiweSessionData where
  "emptySession =
     \<lparr>address = None, chainId = None, nonce = None, isLoggedIn = None, signedInAt = None\<rparr>"

definition defaultSession :: SiweSessionData where
  "defaultSession =
     \<lparr>address = None, chainId = None, nonce = None, isLoggedIn = Some False,
      signedInAt = None\<rparr>"

text \<open>
  What a response does to the cookie: nothing, \<^verbatim>\<open>session.save()\<close> (the sealed session
  replaces the cookie) or \<^verbatim>\<open>session.destroy()\<close> (the cookie is removed, so the next
  request loads the empty session).
\<close>

datatype cookie_effect = Unchanged | Saved SiweSessionData | Destroyed

fun cookie_after :: "SiweSessionData \<Rightarrow> cookie_effect \<Rightarrow> SiweSessionData" where
  "cookie_after cookie Unchanged = cookie"
| "cookie_after cookie (Saved session) = session"
| "cookie_after cookie Destroyed = emptySession"

text \<open>The iron-session calls that can reject.\<close>

record faults =
  load_fails :: bool
  save_fails :: bool
  destroy_fails :: bool

definition no_faults :: faults where
  "no_faults = \<lparr>load_fails = False, save_fails = False, destroy_fails = False\<rparr>"

definition getIronSession :: "faults \<Rightarrow> SiweSessionData \<Rightarrow> SiweSessionData option" where
  "getIronSession f cookie = (if load_fails f then None else Some cookie)"

subsection \<open>Session password and options (utils/siwe.ts)\<close>

datatype config_error = SecretTooShort | SecretRequired

definition dev_secret :: string where
  "dev_secret = ''complex_password_at_least_32_characters_long_for_dev''"

text \<open>
  \<^verbatim>\<open>getSessionPassword\<close>, from \<^verbatim>\<open>process.env.IRON_SESSION_SECRET\<close> and
  \<^verbatim>\<open>process.env.NODE_ENV\<close>. \<^verbatim>\<open>if (secret)\<close> takes the empty string as no secret.
\<close>

definition getSessionPassword :: "string option \<Rightarrow> string option \<Rightarrow> config_error + string" where
  "getSessionPassword secret node_env =
     (if truthy_string secret then
        (case secret of
           Some s \<Rightarrow> if length s < 32 then Inl SecretTooShort else Inr s
         | None \<Rightarrow> Inl SecretRequired)
      else if node_env = Some ''production'' then Inl SecretRequired
      else Inr dev_secret)"

definition sessionDurationDays :: nat where
  "sessionDurationDays = 7"

record SessionOptions =
  password :: string
  cookieName :: string
  path :: string
  secure :: bool
  httpOnly :: bool
  sameSite :: string
  maxAge :: nat

text \<open>
  \<^verbatim>\<open>sessionOptions\<close> is a constant of the module: it is computed when the module is
  loaded, and a throw of \<^verbatim>\<open>getSessionPassword\<close> there leaves no route that imports it.
\<close>

definition sessionOptions :: "string option \<Rightarrow> string option \<Rightarrow> config_error + SessionOptions" where
  "sessionOptions secret node_env =
     (case getSessionPassword secret node_env of
        Inl e \<Rightarrow> Inl e
      | Inr p \<Rightarrow>
          Inr \<lparr>password = p, cookieName = ''siwe-session'', path = ''/'',
               secure = (node_env = Some ''production''), httpOnly = True,
               sameSite = ''lax'', maxAge = 60 * 60 * 24 * sessionDurationDays\<rparr>)"

subsection \<open>GET /api/siwe/nonce\<close>

datatype nonce_response = NonceJson string | NonceError nat string

text \<open>\<open>generated\<close> is what \<^verbatim>\<open>generateSiweNonce()\<close> returned.\<close>

definition GET_nonce :: "faults \<Rightarrow> string \<Rightarrow> SiweSessionData \<Rightarrow> nonce_response \<times> cookie_effect" where
  "GET_nonce f generated cookie =
     (case getIronSession f cookie of
        None \<Rightarrow> (NonceError 500 ''Failed to generate nonce'', Unchanged)
      | Some session \<Rightarrow>
          (let session' = session\<lparr>nonce := Some generated, isLoggedIn := Some False\<rparr>
           in if save_fails f then (NonceError 500 ''Failed to generate nonce'', Unchanged)
              else (NonceJson generated, Saved session')))"

subsection \<open>GET and DELETE /api/siwe/session\<close>

text \<open>
  The JSON body of the session response has the keys of \<^verbatim>\<open>SiweSessionData\<close>, so it is
  a value of that record.
\<close>

definition GET_session :: "faults \<Rightarrow> SiweSessionData \<Rightarrow> SiweSessionData" where
  "GET_session f cookie =
     (case getIronSession f cookie of
        None \<Rightarrow> defaultSession
      | Some session \<Rightarrow>
          if truthy_bool (isLoggedIn session) \<and> truthy_string (address session)
          then \<lparr>address = address session, chainId = chainId session, nonce = None,
                isLoggedIn = Some True, signedInAt = signedInAt session\<rparr>
          else defaultSession)"

datatype delete_response = DeleteOk | DeleteError nat string

definition DELETE_session :: "faults \<Rightarrow> SiweSessionData \<Rightarrow> delete_response \<times> cookie_effect" where
  "DELETE_session f cookie =
     (case getIronSession f cookie of
        None \<Rightarrow> (DeleteError 500 ''Failed to logout'', Unchanged)
      | Some session \<Rightarrow>
          if destroy_fails f then (DeleteError 500 ''Failed to logout'', Unchanged)
          else (DeleteOk, Destroyed))"

subsection \<open>POST /api/siwe/verify\<close>

text \<open>
  The chains of \<^verbatim>\<open>viem/chains\<close> that the route names. Their \<^verbatim>\<open>id\<close> fields are constants of
  the library, so the table below takes them as the parameter \<open>ids\<close>.
\<close>

datatype Chain =
  mainnet | polygon | optimism | arbitrum | base | gnosis | scroll | zkSync | sepolia | hardhat

text \<open>
  \<^verbatim>\<open>SUPPORTED_CHAINS\<close>: an object literal with computed keys, written in the source's
  order; a key written twice keeps the later entry.
\<close>

definition SUPPORTED_CHAINS :: "(Chain \<Rightarrow> nat) \<Rightarrow> nat \<Rightarrow> Chain option" where
  "SUPPORTED_CHAINS ids =
     [ids mainnet \<mapsto> mainnet, ids polygon \<mapsto> polygon, ids optimism \<mapsto> optimism,
      ids arbitrum \<mapsto> arbitrum, ids base \<mapsto> base, ids gnosis \<mapsto> gnosis,
      ids scroll \<mapsto> scroll, ids zkSync \<mapsto> zkSync, ids sepolia \<mapsto> sepolia,
      ids hardhat \<mapsto> hardhat]"

text \<open>
  \<^verbatim>\<open>getPublicClientForChain\<close>. The public client is made from the chain alone, so the
  chain stands for it. \<^verbatim>\<open>Infinity\<close> is truthy and is no key of the table.
\<close>

definition getPublicClientForChain :: "(Chain \<Rightarrow> nat) \<Rightarrow> number option \<Rightarrow> Chain" where
  "getPublicClientForChain ids cid =
     (let chain = (if truthy_number cid
                   then (case cid of
                           Some (Finite c) \<Rightarrow> SUPPORTED_CHAINS ids c
                         | _ \<Rightarrow> None)
                   else Some mainnet)
      in case chain of Some ch \<Rightarrow> ch | None \<Rightarrow> mainnet)"

text \<open>
  The fields of a parsed message (\<^verbatim>\<open>ReturnType<typeof parseSiweMessage>\<close>, every field
  optional) that the route reads.
\<close>

record SiweMessage =
  m_address :: "string option"
  m_chainId :: "number option"
  m_domain :: "string option"
  m_nonce :: "string option"
  m_expirationTime :: "date option"
  m_notBefore :: "date option"

text \<open>
  \<^verbatim>\<open>getVerificationErrorMessage\<close>; \<open>now\<close> is its \<^verbatim>\<open>new Date()\<close>. A \<^verbatim>\<open>Date\<close> object is
  truthy also when it is invalid.
\<close>

definition getVerificationErrorMessage :: "SiweMessage \<Rightarrow> string \<Rightarrow> string \<Rightarrow> int \<Rightarrow> string" where
  "getVerificationErrorMessage parsedMessage expectedDomain expectedNonce now =
     (if m_domain parsedMessage \<noteq> Some expectedDomain then
        ''Domain mismatch. Expected: '' @ expectedDomain @ '', Got: '' @
          (case m_domain parsedMessage of None \<Rightarrow> ''undefined'' | Some d \<Rightarrow> d)
      else if m_nonce parsedMessage \<noteq> Some expectedNonce then
        ''Nonce mismatch. Please request a new nonce and try again.''
      else if (case m_expirationTime parsedMessage of
                 None \<Rightarrow> False | Some d \<Rightarrow> date_lt d now) then
        ''Message has expired. Please sign a new message.''
      else if (case m_notBefore parsedMessage of
                 None \<Rightarrow> False | Some d \<Rightarrow> date_gt d now) then
        ''Message is not yet valid. Please wait and try again.''
      else if \<not> truthy_string (m_address parsedMessage) then
        ''Message is missing required field: address''
      else if \<not> truthy_number (m_chainId parsedMessage) then
        ''Message is missing required field: chainId''
      else ''Invalid signature. The message was not signed by the claimed address.'')"

text \<open>
  The request: its JSON body (\<open>None\<close> when \<^verbatim>\<open>request.json()\<close> rejects or the body cannot
  be destructured), as the pair of its \<^verbatim>\<open>message\<close> and \<^verbatim>\<open>signature\<close> fields, and its
  \<^verbatim>\<open>host\<close> header.
\<close>

record verify_request =
  body :: "(json option \<times> json option) option"
  host :: "string option"

text \<open>
  What the route takes from outside: viem's \<^verbatim>\<open>parseSiweMessage\<close> (\<open>None\<close>: it throws)
  and \<^verbatim>\<open>verifySiweMessage\<close>, applied to the public client, the message, the signature,
  the domain and the nonce (\<open>None\<close>: it rejects); the chain ids; the clock readings of
  \<^verbatim>\<open>getVerificationErrorMessage\<close> and of \<^verbatim>\<open>Date.now()\<close>; the iron-session faults.
\<close>

record verify_env =
  parseSiweMessage :: "string \<Rightarrow> SiweMessage option"
  verifySiweMessage :: "Chain \<Rightarrow> string \<Rightarrow> string \<Rightarrow> string \<Rightarrow> string \<Rightarrow> bool option"
  chain_id :: "Chain \<Rightarrow> nat"
  diagnosis_now :: int
  date_now :: int
  session_faults :: faults

datatype verify_response =
  VerifyOk "string option" "json_number option" int
| VerifyError nat string

definition no_nonce_error :: verify_response where
  "no_nonce_error =
     VerifyError 400 ''No nonce found in session. Please call GET /api/siwe/nonce first.''"

definition unexpected_error :: verify_response where
  "unexpected_error =
     VerifyError 500 ''An unexpected error occurred during verification. Please try again.''"

text \<open>
  Steps 3 to 6 of the route, for the session loaded from the cookie, its stored nonce and
  the two strings of the body. \<^verbatim>\<open>session.save()\<close> seals the JSON text of the session
  object and \<^verbatim>\<open>NextResponse.json\<close> writes JSON, so the chain id of the saved cookie and
  of the response is \<open>to_json\<close> of the parsed one.
\<close>

definition verify_message ::
  "verify_env \<Rightarrow> verify_request \<Rightarrow> SiweSessionData \<Rightarrow> string \<Rightarrow> string \<Rightarrow> string \<Rightarrow>
     verify_response \<times> cookie_effect" where
  "verify_message env request session storedNonce message signature =
     (case parseSiweMessage env message of
        None \<Rightarrow>
          (VerifyError 400 ''Invalid SIWE message format. Could not parse EIP-4361 message.'',
           Unchanged)
      | Some parsedMessage \<Rightarrow>
          (let expectedDomain = (case host request of None \<Rightarrow> [] | Some h \<Rightarrow> h)
           in
           if expectedDomain = [] then
             (VerifyError 500 ''Could not determine server domain for verification.'',
              Unchanged)
           else
             (let publicClient =
                    getPublicClientForChain (chain_id env) (m_chainId parsedMessage);
                  errorMessage =
                    getVerificationErrorMessage parsedMessage expectedDomain storedNonce
                      (diagnosis_now env)
              in
              case verifySiweMessage env publicClient message signature expectedDomain
                     storedNonce of
                None \<Rightarrow> (VerifyError 400 errorMessage, Unchanged)
              | Some isValid \<Rightarrow>
                  if \<not> isValid then (VerifyError 400 errorMessage, Unchanged)
                  else
                    (let signedInAt' = date_now env;
                         session' = session\<lparr>address := m_address parsedMessage,
                                             chainId :=
                                               map_option to_json
                                                 (m_chainId parsedMessage),
                                             isLoggedIn := Some True,
                                             signedInAt := Some signedInAt',
                                             nonce := None\<rparr>
                     in
                     if save_fails (session_faults env) then (unexpected_error, Unchanged)
                     else
                       (VerifyOk (m_address parsedMessage)
                          (map_option to_json (m_chainId parsedMessage)) signedInAt',
                        Saved session')))))"

text \<open>The route: steps 1 and 2, then the steps above.\<close>

definition POST_verify ::
  "verify_env \<Rightarrow> verify_request \<Rightarrow> SiweSessionData \<Rightarrow> verify_response \<times> cookie_effect" where
  "POST_verify env request cookie =
     (case body request of
        None \<Rightarrow> (unexpected_error, Unchanged)
      | Some (message_field, signature_field) \<Rightarrow>
          (case nonempty_string message_field of
             None \<Rightarrow>
               (VerifyError 400 ''Missing or invalid 'message' field. Expected a string.'',
                Unchanged)
           | Some message \<Rightarrow>
               (case nonempty_string signature_field of
                  None \<Rightarrow>
                    (VerifyError 400
                       ''Missing or invalid 'signature' field. Expected a hex string.'',
                     Unchanged)
                | Some signature \<Rightarrow>
                    (case getIronSession (session_faults env) cookie of
                       None \<Rightarrow> (unexpected_error, Unchanged)
                     | Some session \<Rightarrow>
                         (case nonce session of
                            None \<Rightarrow> (no_nonce_error, Unchanged)
                          | Some storedNonce \<Rightarrow>
                              if storedNonce = [] then (no_nonce_error, Unchanged)
                              else
                                verify_message env request session storedNonce message
                                  signature)))))"

text \<open>
  Modelled from the spec: viem's \<^verbatim>\<open>verifySiweMessage\<close> is a library function, not a file
  of the repository. The definition follows steps 4 to 8 of the verification algorithm of
  the specification (section 4.2): the domain and the nonce must match exactly, the message
  is rejected when an expiration time is present and \<open>time \<ge> expirationTime\<close> or a
  not-before time is present and \<open>time < notBefore\<close>, and the signature is checked against
  the claimed address through the client of the chain, so a message that claims no
  address fails. \<open>signature_valid\<close> is the cryptographic check, which the specification
  leaves to its oracle. The algorithm has no step on the chain id.
\<close>

definition verifySiweMessage_spec ::
  "(string \<Rightarrow> SiweMessage option) \<Rightarrow> (Chain \<Rightarrow> string \<Rightarrow> string \<Rightarrow> string \<Rightarrow> bool) \<Rightarrow> int \<Rightarrow>
     Chain \<Rightarrow> string \<Rightarrow> string \<Rightarrow> string \<Rightarrow> string \<Rightarrow> bool option" where
  "verifySiweMessage_spec parse signature_valid time client message signature domain
     expectedNonce =
     (case parse message of
        None \<Rightarrow> Some False
      | Some parsed \<Rightarrow>
          Some (m_domain parsed = Some domain \<and> m_nonce parsed = Some expectedNonce \<and>
                (case m_expirationTime parsed of
                   Some (Date e) \<Rightarrow> \<not> time \<ge> e | _ \<Rightarrow> True) \<and>
                (case m_notBefore parsed of
                   Some (Date b) \<Rightarrow> \<not> time < b | _ \<Rightarrow> True) \<and>
                (case m_address parsed of
                   None \<Rightarrow> False
                 | Some a \<Rightarrow> signature_valid client a message signature)))"

section \<open>Reachable session cookies\<close>


section \<open>The useSiwe hook: sign-out and the auto-logout effects\<close>

record SiweState =
  st_address :: "string option"
  st_chainId :: "nat option"
  isSignedIn :: bool
  isLoading :: bool
  st_error :: "string option"
  siweMessage :: "string option"
  st_signedInAt :: "int option"

text \<open>What \<^verbatim>\<open>useAccount()\<close> reports.\<close>

record wallet =
  connectedAddress :: "string option"
  isConnected :: bool

text \<open>\<^verbatim>\<open>toLowerCase\<close> on the ASCII letters, the only letters of an address.\<close>

definition lower_char :: "char \<Rightarrow> char" where
  "lower_char c =
     (case map_of (zip ''ABCDEFGHIJKLMNOPQRSTUVWXYZ'' ''abcdefghijklmnopqrstuvwxyz'') c of
        None \<Rightarrow> c
      | Some l \<Rightarrow> l)"

definition toLowerCase :: "string \<Rightarrow> string" where
  "toLowerCase s = map lower_char s"

text \<open>A thrown value, and \<^verbatim>\<open>getErrorMessage\<close>.\<close>

datatype thrown = ErrorObject string | ThrownString string | ThrownOther

fun getErrorMessage :: "thrown \<Rightarrow> string \<Rightarrow> string" where
  "getErrorMessage (ErrorObject msg) fallback = msg"
| "getErrorMessage (ThrownString s) fallback = s"
| "getErrorMessage ThrownOther fallback = fallback"

text \<open>
  How the \<^verbatim>\<open>DELETE\<close> request of \<^verbatim>\<open>signOut\<close> ends: a response with its \<^verbatim>\<open>ok\<close> flag, or a
  rejected \<^verbatim>\<open>fetch\<close>.
\<close>

datatype delete_fetch = Responded bool | Rejected thrown

definition signedOutState :: SiweState where
  "signedOutState =
     \<lparr>st_address = None, st_chainId = None, isSignedIn = False, isLoading = False,
      st_error = None, siweMessage = None, st_signedInAt = None\<rparr>"

text \<open>\<^verbatim>\<open>signOut\<close>: the state once the request has ended.\<close>

definition signOut :: "delete_fetch \<Rightarrow> SiweState \<Rightarrow> SiweState" where
  "signOut outcome prev =
     (let loading = prev\<lparr>isLoading := True, st_error := None\<rparr>;
          caught = (case outcome of
                      Responded ok \<Rightarrow>
                        if \<not> ok then Some (ErrorObject ''Failed to sign out'') else None
                    | Rejected e \<Rightarrow> Some e)
      in case caught of
           None \<Rightarrow> signedOutState
         | Some e \<Rightarrow>
             loading\<lparr>isLoading := False,
                     st_error := Some (getErrorMessage e ''Failed to sign out'')\<rparr>)"

text \<open>
  The effect that keeps \<^verbatim>\<open>hasSeenWalletConnected\<close>, and the ref after a history of
  \<^verbatim>\<open>isConnected\<close> values, starting from \<^verbatim>\<open>useRef(false)\<close>.
\<close>

definition track_wallet :: "bool \<Rightarrow> bool \<Rightarrow> bool" where
  "track_wallet connected hasSeenWalletConnected =
     (if connected then True else hasSeenWalletConnected)"

definition seen_after :: "bool list \<Rightarrow> bool" where
  "seen_after history = fold track_wallet history False"

text \<open>The auto-logout effect: the calls of \<^verbatim>\<open>signOut()\<close> it makes, in order.\<close>

datatype logout_reason = AddressChanged | WalletDisconnected

definition auto_logout :: "SiweState \<Rightarrow> wallet \<Rightarrow> bool \<Rightarrow> logout_reason list" where
  "auto_logout state w hasSeenWalletConnected =
     (if isSignedIn state \<and> truthy_string (connectedAddress w) \<and>
         truthy_string (st_address state)
      then (case (connectedAddress w, st_address state) of
              (Some connected, Some bound) \<Rightarrow>
                if toLowerCase connected \<noteq> toLowerCase bound then [AddressChanged] else []
            | _ \<Rightarrow> [])
      else []) @
     (if isSignedIn state \<and> \<not> isConnected w \<and> hasSeenWalletConnected
      then [WalletDisconnected] else [])"

text \<open>
  One reconciliation cycle after a change of the wallet: both effects run, in the order
  the hook declares them, and every \<^verbatim>\<open>signOut()\<close> the second one calls ends with
  \<open>outcome\<close>.
\<close>

definition reconcile :: "delete_fetch \<Rightarrow> wallet \<Rightarrow> SiweState \<times> bool \<Rightarrow> SiweState \<times> bool" where
  "reconcile outcome w sr =
     (let seen = track_wallet (isConnected w) (snd sr);
          calls = auto_logout (fst sr) w seen
      in (fold (\<lambda>_. signOut outcome) calls (fst sr), seen))"

section \<open>A concrete scenario\<close>

text \<open>
  The scenario of the specification's testable properties: nonce \<open>n1\<close>, chain 1, a message
  that expires ten minutes after it was issued at time 0, served from \<open>localhost:3000\<close>.
  The chain ids are the ones \<^verbatim>\<open>viem/chains\<close> publishes.
\<close>

fun viem_chain_id :: "Chain \<Rightarrow> nat" where
  "viem_chain_id mainnet = 1"
| "viem_chain_id polygon = 137"
| "viem_chain_id optimism = 10"
| "viem_chain_id arbitrum = 42161"
| "viem_chain_id base = 8453"
| "viem_chain_id gnosis = 100"
| "viem_chain_id scroll = 534352"
| "viem_chain_id zkSync = 324"
| "viem_chain_id sepolia = 11155111"
| "viem_chain_id hardhat = 31337"

definition demo_message :: SiweMessage where
  "demo_message =
     \<lparr>m_address = Some ''0xABCD'', m_chainId = Some (Finite 1),
      m_domain = Some ''localhost:3000'',
      m_nonce = Some ''n1'', m_expirationTime = Some (Date 600000), m_notBefore = None\<rparr>"

definition demo_parse :: "string \<Rightarrow> SiweMessage option" where
  "demo_parse m = (if m = ''signed message'' then Some demo_message else None)"

definition demo_signature_valid :: "Chain \<Rightarrow> string \<Rightarrow> string \<Rightarrow> string \<Rightarrow> bool" where
  "demo_signature_valid client a m sg =
     (client = mainnet \<and> a = ''0xABCD'' \<and> m = ''signed message'' \<and> sg = ''0xsig'')"

definition demo_env :: "int \<Rightarrow> verify_env" where
  "demo_env t =
     \<lparr>parseSiweMessage = demo_parse,
      verifySiweMessage = verifySiweMessage_spec demo_parse demo_signature_valid t,
      chain_id = viem_chain_id, diagnosis_now = t, date_now = t,
      session_faults = no_faults\<rparr>"

definition demo_request :: verify_request where
  "demo_request =
     \<lparr>body = Some (Some (JStr ''signed message''), Some (JStr ''0xsig'')),
      host = Some ''localhost:3000''\<rparr>"

definition pending_session :: SiweSessionData where
  "pending_session = cookie_after emptySession (snd (GET_nonce no_faults ''n1'' emptySession))"

definition signed_in_session :: SiweSessionData where
  "signed_in_session =
     cookie_after pending_session (snd (POST_verify (demo_env 1000) demo_request pending_session))"






text \<open>
  A verifier that answers as the one of the scenario for the client of mainnet and accepts
  everything for every other client.
\<close>

definition alt_oracle :: "Chain \<Rightarrow> string \<Rightarrow> string \<Rightarrow> string \<Rightarrow> string \<Rightarrow> bool option" where
  "alt_oracle client =
     (if client = mainnet then verifySiweMessage (demo_env 1000) client
      else (\<lambda>message signature domain n. Some True))"

text \<open>The hook's state after the sign-in of the scenario, and a wallet of another address.\<close>

definition demo_state :: SiweState where
  "demo_state =
     \<lparr>st_address = Some ''0xABCD'', st_chainId = Some 1, isSignedIn = True,
      isLoading = False, st_error = None, siweMessage = Some ''signed message'',
      st_signedInAt = Some 1000\<rparr>"

definition other_wallet :: wallet where
  "other_wallet = \<lparr>connectedAddress = Some ''0x1234'', isConnected = True\<rparr>"

section \<open>Properties of the routes\<close>

lemmas scenario_defs =
  demo_message_def demo_parse_def demo_signature_valid_def demo_env_def demo_request_def
  pending_session_def signed_in_session_def no_faults_def emptySession_def


lemmas route_defs =
  POST_verify_def verify_message_def GET_nonce_def GET_session_def DELETE_session_def
  getIronSession_def getPublicClientForChain_def SUPPORTED_CHAINS_def
  verifySiweMessage_spec_def getVerificationErrorMessage_def
  truthy_string_def truthy_number_def truthy_bool_def date_lt_def date_gt_def
  no_nonce_error_def unexpected_error_def defaultSession_def

subsection \<open>The scenario, evaluated\<close>

lemma pending_session_eq:
  "pending_session =
     \<lparr>address = None, chainId = None, nonce = Some ''n1'', isLoggedIn = Some False,
      signedInAt = None\<rparr>"
  by (simp add: scenario_defs route_defs)

lemma demo_verify_ok:
  "POST_verify (demo_env 1000) demo_request pending_session =
     (VerifyOk (Some ''0xABCD'') (Some (JsonNumber 1)) 1000,
      Saved \<lparr>address = Some ''0xABCD'', chainId = Some (JsonNumber 1), nonce = None,
             isLoggedIn = Some True, signedInAt = Some 1000\<rparr>)"
  by (simp add: scenario_defs route_defs)

lemma signed_in_session_eq:
  "signed_in_session =
     \<lparr>address = Some ''0xABCD'', chainId = Some (JsonNumber 1), nonce = None, isLoggedIn = Some True,
      signedInAt = Some 1000\<rparr>"
  by (simp add: signed_in_session_def demo_verify_ok)






subsection \<open>What a verify response says about the cookie\<close>

lemma verify_success_effect:
  assumes "POST_verify env request cookie = (VerifyOk a c t, eff)"
  shows "eff = Saved (cookie\<lparr>address := a, chainId := c, isLoggedIn := Some True,
                          signedInAt := Some t, nonce := None\<rparr>)"
    and "t = date_now env"
  using assms
  by (auto simp: POST_verify_def verify_message_def getIronSession_def no_nonce_error_def
        unexpected_error_def Let_def
      split: option.splits if_splits prod.splits)


lemma verify_failure_effect:
  assumes "POST_verify env request cookie = (VerifyError status msg, eff)"
  shows "eff = Unchanged"
  using assms
  by (auto simp: POST_verify_def verify_message_def getIronSession_def no_nonce_error_def
        unexpected_error_def Let_def
      split: option.splits if_splits prod.splits)

subsection \<open>Replay of a verified message\<close>

text \<open>
  C1, as the specification states it: after a successful verify, a second call with the
  same message and signature fails with the nonce-mismatch error. In the scenario the
  first call succeeds and the replay fails, but the error of the replay is the one of
  step 2 of the route (no nonce in the session): the success cleared the stored nonce,
  and the route tests for a stored nonce before it compares nonces.
\<close>

theorem replay_reports_missing_nonce:
  "fst (POST_verify (demo_env 1000) demo_request pending_session) =
     VerifyOk (Some ''0xABCD'') (Some (JsonNumber 1)) 1000 \<and>
   fst (POST_verify (demo_env 1000) demo_request
          (cookie_after pending_session
             (snd (POST_verify (demo_env 1000) demo_request pending_session)))) =
     VerifyError 400 ''No nonce found in session. Please call GET /api/siwe/nonce first.'' \<and>
   fst (POST_verify (demo_env 1000) demo_request
          (cookie_after pending_session
             (snd (POST_verify (demo_env 1000) demo_request pending_session)))) \<noteq>
     VerifyError 400 ''Nonce mismatch. Please request a new nonce and try again.''"
  by (simp add: demo_verify_ok) (simp add: scenario_defs route_defs)

text \<open>
  C1, amended: whenever a verify call succeeds, a second call with the identical request
  against the cookie that the first one saved fails with status 400 and the error
  "No nonce found in session", and leaves the cookie alone. The second call may read
  other clocks and another verifier (\<open>env'\<close>); it only has to load the session.
\<close>

theorem replay_fails_no_nonce:
  assumes "POST_verify env request cookie = (VerifyOk a c t, eff)"
      and "\<not> load_fails (session_faults env')"
  shows "POST_verify env' request (cookie_after cookie eff) =
           (VerifyError 400
              ''No nonce found in session. Please call GET /api/siwe/nonce first.'',
            Unchanged)"
proof -
  have saved: "eff = Saved (cookie\<lparr>address := a, chainId := c, isLoggedIn := Some True,
                          signedInAt := Some t, nonce := None\<rparr>)"
    by (rule verify_success_effect(1) [OF assms(1)])
  obtain mf sf where b: "body request = Some (mf, sf)"
    using assms(1) by (auto simp: POST_verify_def unexpected_error_def split: option.splits)
  obtain m where m: "nonempty_string mf = Some m"
    using assms(1) b by (auto simp: POST_verify_def split: option.splits)
  obtain sg where sg: "nonempty_string sf = Some sg"
    using assms(1) b m by (auto simp: POST_verify_def split: option.splits)
  show ?thesis
    using assms(2)
    by (simp add: POST_verify_def b m sg saved getIronSession_def no_nonce_error_def)
qed

theorem replay_fails_no_nonce_witness:
  "POST_verify (demo_env 1000) demo_request pending_session =
     (VerifyOk (Some ''0xABCD'') (Some (JsonNumber 1)) 1000,
      Saved \<lparr>address = Some ''0xABCD'', chainId = Some (JsonNumber 1), nonce = None,
             isLoggedIn = Some True, signedInAt = Some 1000\<rparr>) \<and>
   \<not> load_fails (session_faults (demo_env 2000)) \<and>
   POST_verify (demo_env 2000) demo_request
     \<lparr>address = Some ''0xABCD'', chainId = Some (JsonNumber 1), nonce = None,
       isLoggedIn = Some True, signedInAt = Some 1000\<rparr> =
     (VerifyError 400
        ''No nonce found in session. Please call GET /api/siwe/nonce first.'', Unchanged)"
proof -
  have ok: "POST_verify (demo_env 1000) demo_request pending_session =
     (VerifyOk (Some ''0xABCD'') (Some (JsonNumber 1)) 1000,
      Saved \<lparr>address = Some ''0xABCD'', chainId = Some (JsonNumber 1), nonce = None,
             isLoggedIn = Some True, signedInAt = Some 1000\<rparr>)"
    by (rule demo_verify_ok)
  have load: "\<not> load_fails (session_faults (demo_env 2000))"
    by (simp add: demo_env_def no_faults_def)
  from replay_fails_no_nonce [OF ok load] ok load show ?thesis by simp
qed

subsection \<open>The session record and its identity fields\<close>


lemma delete_effect:
  assumes "DELETE_session f cookie = (DeleteOk, eff)"
  shows "eff = Destroyed"
  using assms
  by (auto simp: DELETE_session_def getIronSession_def split: option.splits if_splits)











subsection \<open>The sign-in round trip\<close>

lemma verify_message_accepts:
  assumes "parseSiweMessage env message = Some parsed"
      and "host request = Some domain" and "domain \<noteq> []"
      and "verifySiweMessage env (getPublicClientForChain (chain_id env) (m_chainId parsed))
             message signature domain storedNonce = Some True"
      and "\<not> save_fails (session_faults env)"
  shows "verify_message env request session storedNonce message signature =
           (VerifyOk (m_address parsed) (map_option to_json (m_chainId parsed))
              (date_now env),
            Saved (session\<lparr>address := m_address parsed,
                     chainId := map_option to_json (m_chainId parsed),
                     isLoggedIn := Some True, signedInAt := Some (date_now env),
                     nonce := None\<rparr>))"
  using assms by (simp add: verify_message_def Let_def)

lemma verify_message_rejects:
  assumes "parseSiweMessage env message = Some parsed"
      and "host request = Some domain" and "domain \<noteq> []"
      and "verifySiweMessage env (getPublicClientForChain (chain_id env) (m_chainId parsed))
             message signature domain storedNonce \<noteq> Some True"
  shows "verify_message env request session storedNonce message signature =
           (VerifyError 400
              (getVerificationErrorMessage parsed domain storedNonce (diagnosis_now env)),
            Unchanged)"
  using assms by (auto simp: verify_message_def Let_def split: option.splits)

lemma POST_verify_pending:
  assumes "body request = Some (Some (JStr message), Some (JStr signature))"
      and "message \<noteq> []" and "signature \<noteq> []"
      and "\<not> load_fails (session_faults env)"
      and "nonce cookie = Some storedNonce" and "storedNonce \<noteq> []"
  shows "POST_verify env request cookie =
           verify_message env request cookie storedNonce message signature"
  using assms by (simp add: POST_verify_def getIronSession_def)





subsection \<open>Expiry\<close>

text \<open>
  The verifier of the specification accepts only inside the window of the message; the
  diagnosis of the route names the expiry only strictly after the expiration time.
\<close>

lemma spec_verifier_window:
  assumes "verifySiweMessage_spec parse signature_valid time client message signature
             domain n = Some True"
      and "parse message = Some parsed"
  shows "m_expirationTime parsed = Some (Date e) \<Longrightarrow> time < e"
    and "m_notBefore parsed = Some (Date b) \<Longrightarrow> b \<le> time"
  using assms by (auto simp: verifySiweMessage_spec_def)

lemma diagnosis_expired_iff:
  "getVerificationErrorMessage parsed domain n now =
     ''Message has expired. Please sign a new message.'' \<longleftrightarrow>
   m_domain parsed = Some domain \<and> m_nonce parsed = Some n \<and>
   (\<exists>e. m_expirationTime parsed = Some (Date e) \<and> e < now)"
  by (auto simp: getVerificationErrorMessage_def date_lt_def
      split: option.splits date.splits)

text \<open>
  C4: a message that carries an expiration time is rejected with the expired-message error
  whenever the current time is at or after that time. In the scenario the message expires
  at time 600000. The verifier of the specification accepts it one millisecond before and
  rejects it at that very millisecond; the route then answers 400, but
  \<^verbatim>\<open>getVerificationErrorMessage\<close> tests \<^verbatim>\<open>expirationTime < now\<close>, so the error it
  derives at the boundary is the invalid-signature one, for a signature that is valid. One
  millisecond later the error is the expired-message one.
\<close>

theorem expiry_boundary_diagnosis:
  "m_expirationTime demo_message = Some (Date 600000) \<and>
   verifySiweMessage_spec demo_parse demo_signature_valid 599999 mainnet
     ''signed message'' ''0xsig'' ''localhost:3000'' ''n1'' = Some True \<and>
   verifySiweMessage_spec demo_parse demo_signature_valid 600000 mainnet
     ''signed message'' ''0xsig'' ''localhost:3000'' ''n1'' = Some False \<and>
   POST_verify (demo_env 600000) demo_request pending_session =
     (VerifyError 400
        ''Invalid signature. The message was not signed by the claimed address.'',
      Unchanged) \<and>
   POST_verify (demo_env 600001) demo_request pending_session =
     (VerifyError 400 ''Message has expired. Please sign a new message.'', Unchanged)"
  by (simp add: scenario_defs route_defs)

subsection \<open>A failed verify\<close>

lemma demo_verify_bad_signature:
  "POST_verify (demo_env 1000)
     (demo_request\<lparr>body := Some (Some (JStr ''signed message''), Some (JStr ''0xbad''))\<rparr>)
     pending_session =
     (VerifyError 400
        ''Invalid signature. The message was not signed by the claimed address.'', Unchanged)"
  by (simp add: scenario_defs route_defs)

text \<open>
  C5: whenever verify answers with a failure, whatever the step that failed (the body, the
  shape of the two fields, the load of the session, the missing nonce, the parse, the host,
  the verifier's rejection or throw, the save), the response does not write the cookie: the
  stored session, and so its pending nonce, is the one from before the call, and any later
  verify call meets the session it would have met before.
\<close>

theorem failed_verify_keeps_session:
  assumes "POST_verify env request cookie = (VerifyError status msg, eff)"
  shows "eff = Unchanged \<and> cookie_after cookie eff = cookie \<and>
         nonce (cookie_after cookie eff) = nonce cookie \<and>
         POST_verify env' request' (cookie_after cookie eff) = POST_verify env' request' cookie"
  using verify_failure_effect [OF assms] by simp

theorem failed_verify_keeps_session_witness:
  "POST_verify (demo_env 1000)
     (demo_request\<lparr>body := Some (Some (JStr ''signed message''), Some (JStr ''0xbad''))\<rparr>)
     pending_session =
     (VerifyError 400
        ''Invalid signature. The message was not signed by the claimed address.'', Unchanged) \<and>
   cookie_after pending_session Unchanged = pending_session \<and>
   nonce (cookie_after pending_session Unchanged) = Some ''n1'' \<and>
   POST_verify (demo_env 2000) demo_request (cookie_after pending_session Unchanged) =
     (VerifyOk (Some ''0xABCD'') (Some (JsonNumber 1)) 2000,
      Saved \<lparr>address = Some ''0xABCD'', chainId = Some (JsonNumber 1), nonce = None,
             isLoggedIn = Some True, signedInAt = Some 2000\<rparr>)"
proof -
  have retry: "POST_verify (demo_env 2000) demo_request pending_session =
     (VerifyOk (Some ''0xABCD'') (Some (JsonNumber 1)) 2000,
      Saved \<lparr>address = Some ''0xABCD'', chainId = Some (JsonNumber 1), nonce = None,
             isLoggedIn = Some True, signedInAt = Some 2000\<rparr>)"
    by (simp add: scenario_defs route_defs)
  from failed_verify_keeps_session [OF demo_verify_bad_signature, of "demo_env 2000"
      demo_request]
    demo_verify_bad_signature retry
  show ?thesis by (simp add: pending_session_eq)
qed

subsection \<open>After the session is destroyed\<close>

text \<open>
  C6: after a successful destroy, the session check answers with the unauthenticated
  default (isLoggedIn false and no address, chain id or sign-in time), whether or not the
  session loads; and a verify request of the right shape, whatever message and nonce it
  carries, is answered with status 400 and the error that no nonce is in the session.
\<close>

theorem destroyed_session_is_anonymous:
  assumes "DELETE_session f cookie = (DeleteOk, eff)"
  shows "GET_session f' (cookie_after cookie eff) =
           \<lparr>address = None, chainId = None, nonce = None, isLoggedIn = Some False,
            signedInAt = None\<rparr> \<and>
         (body request = Some (Some (JStr message), Some (JStr signature)) \<longrightarrow>
          message \<noteq> [] \<longrightarrow> signature \<noteq> [] \<longrightarrow> \<not> load_fails (session_faults env) \<longrightarrow>
          POST_verify env request (cookie_after cookie eff) =
            (VerifyError 400
               ''No nonce found in session. Please call GET /api/siwe/nonce first.'',
             Unchanged))"
  using delete_effect [OF assms]
  by (simp add: GET_session_def POST_verify_def getIronSession_def emptySession_def
      defaultSession_def truthy_bool_def no_nonce_error_def)

theorem destroyed_session_is_anonymous_witness:
  "DELETE_session no_faults signed_in_session = (DeleteOk, Destroyed) \<and>
   GET_session no_faults (cookie_after signed_in_session Destroyed) =
     \<lparr>address = None, chainId = None, nonce = None, isLoggedIn = Some False,
      signedInAt = None\<rparr> \<and>
   body demo_request = Some (Some (JStr ''signed message''), Some (JStr ''0xsig'')) \<and>
   ''signed message'' \<noteq> [] \<and> ''0xsig'' \<noteq> [] \<and>
   \<not> load_fails (session_faults (demo_env 2000)) \<and>
   POST_verify (demo_env 2000) demo_request (cookie_after signed_in_session Destroyed) =
     (VerifyError 400
        ''No nonce found in session. Please call GET /api/siwe/nonce first.'', Unchanged)"
proof -
  have d: "DELETE_session no_faults signed_in_session = (DeleteOk, Destroyed)"
    by (simp add: DELETE_session_def getIronSession_def no_faults_def)
  have b: "body demo_request = Some (Some (JStr ''signed message''), Some (JStr ''0xsig''))"
    by (simp add: demo_request_def)
  have l: "\<not> load_fails (session_faults (demo_env 2000))"
    by (simp add: demo_env_def no_faults_def)
  from destroyed_session_is_anonymous [OF d, of no_faults demo_request "''signed message''"
      "''0xsig''" "demo_env 2000"] d b l
  show ?thesis by simp
qed

subsection \<open>The session check\<close>

lemma GET_session_cases:
  "GET_session f cookie =
     (if \<not> load_fails f \<and> isLoggedIn cookie = Some True \<and>
         (\<exists>a. address cookie = Some a \<and> a \<noteq> [])
      then \<lparr>address = address cookie, chainId = chainId cookie, nonce = None,
            isLoggedIn = Some True, signedInAt = signedInAt cookie\<rparr>
      else defaultSession)"
  by (cases "isLoggedIn cookie"; cases "address cookie")
     (simp_all add: GET_session_def getIronSession_def truthy_bool_def truthy_string_def)

lemma authenticated_not_default:
  "\<lparr>address = x, chainId = y, nonce = None, isLoggedIn = Some True, signedInAt = z\<rparr> \<noteq>
   defaultSession"
  by (simp add: defaultSession_def)

text \<open>
  C10: the session check answers with the authenticated shape (isLoggedIn true and the
  session's address, chain id and sign-in time) only when the session loads, its
  isLoggedIn is true and its address is a non-empty string, and it does so whenever these
  hold. In every other case it answers with the default \<open>{isLoggedIn: false}\<close>: when
  isLoggedIn is not true, when isLoggedIn is true and there is no address, and when the
  load of the session fails.
\<close>

theorem check_session_shape:
  "(GET_session f cookie \<noteq> defaultSession \<longrightarrow>
      \<not> load_fails f \<and> isLoggedIn cookie = Some True \<and>
      (\<exists>a. address cookie = Some a \<and> a \<noteq> []) \<and>
      GET_session f cookie =
        \<lparr>address = address cookie, chainId = chainId cookie, nonce = None,
         isLoggedIn = Some True, signedInAt = signedInAt cookie\<rparr>) \<and>
   (isLoggedIn cookie = Some True \<longrightarrow> address cookie = Some a \<longrightarrow> a \<noteq> [] \<longrightarrow>
    \<not> load_fails f \<longrightarrow>
      GET_session f cookie =
        \<lparr>address = Some a, chainId = chainId cookie, nonce = None,
         isLoggedIn = Some True, signedInAt = signedInAt cookie\<rparr>) \<and>
   (isLoggedIn cookie \<noteq> Some True \<longrightarrow> GET_session f cookie = defaultSession) \<and>
   (address cookie = None \<longrightarrow> GET_session f cookie = defaultSession) \<and>
   (load_fails f \<longrightarrow> GET_session f cookie = defaultSession) \<and>
   defaultSession =
     \<lparr>address = None, chainId = None, nonce = None, isLoggedIn = Some False,
      signedInAt = None\<rparr>"
proof -
  have 1: "GET_session f cookie \<noteq> defaultSession \<longrightarrow>
      \<not> load_fails f \<and> isLoggedIn cookie = Some True \<and>
      (\<exists>a. address cookie = Some a \<and> a \<noteq> []) \<and>
      GET_session f cookie =
        \<lparr>address = address cookie, chainId = chainId cookie, nonce = None,
         isLoggedIn = Some True, signedInAt = signedInAt cookie\<rparr>"
  proof (cases "\<not> load_fails f \<and> isLoggedIn cookie = Some True \<and>
                (\<exists>a. address cookie = Some a \<and> a \<noteq> [])")
    case True
    have "GET_session f cookie =
        \<lparr>address = address cookie, chainId = chainId cookie, nonce = None,
         isLoggedIn = Some True, signedInAt = signedInAt cookie\<rparr>"
      by (subst GET_session_cases) (rule if_P [OF True])
    with True show ?thesis by blast
  next
    case False
    have "GET_session f cookie = defaultSession"
      by (subst GET_session_cases) (rule if_not_P [OF False])
    then show ?thesis by blast
  qed
  have 2: "isLoggedIn cookie = Some True \<longrightarrow> address cookie = Some a \<longrightarrow> a \<noteq> [] \<longrightarrow>
    \<not> load_fails f \<longrightarrow>
      GET_session f cookie =
        \<lparr>address = Some a, chainId = chainId cookie, nonce = None,
         isLoggedIn = Some True, signedInAt = signedInAt cookie\<rparr>"
    by (simp add: GET_session_cases)
  have 3: "isLoggedIn cookie \<noteq> Some True \<longrightarrow> GET_session f cookie = defaultSession"
    by (simp add: GET_session_cases)
  have 4: "address cookie = None \<longrightarrow> GET_session f cookie = defaultSession"
    by (simp add: GET_session_cases)
  have 5: "load_fails f \<longrightarrow> GET_session f cookie = defaultSession"
    by (simp add: GET_session_cases)
  have 6: "defaultSession =
     \<lparr>address = None, chainId = None, nonce = None, isLoggedIn = Some False,
      signedInAt = None\<rparr>"
    by (simp add: defaultSession_def)
  from 1 2 3 4 5 6 show ?thesis by blast
qed


theorem check_session_shape_witness:
  "GET_session no_faults signed_in_session \<noteq> defaultSession \<and>
   isLoggedIn signed_in_session = Some True \<and>
   address signed_in_session = Some ''0xABCD'' \<and> ''0xABCD'' \<noteq> [] \<and>
   \<not> load_fails no_faults \<and>
   GET_session no_faults signed_in_session =
     \<lparr>address = Some ''0xABCD'', chainId = Some (JsonNumber 1), nonce = None, isLoggedIn = Some True,
      signedInAt = Some 1000\<rparr> \<and>
   isLoggedIn pending_session \<noteq> Some True \<and>
   GET_session no_faults pending_session = defaultSession \<and>
   address (signed_in_session\<lparr>address := None\<rparr>) = None \<and>
   isLoggedIn (signed_in_session\<lparr>address := None\<rparr>) = Some True \<and>
   GET_session no_faults (signed_in_session\<lparr>address := None\<rparr>) = defaultSession \<and>
   load_fails (no_faults\<lparr>load_fails := True\<rparr>) \<and>
   GET_session (no_faults\<lparr>load_fails := True\<rparr>) signed_in_session = defaultSession"
proof -
  have a: "isLoggedIn signed_in_session = Some True"
    and a2: "address signed_in_session = Some ''0xABCD''" and a3: "''0xABCD'' \<noteq> []"
    and a4: "\<not> load_fails no_faults"
    by (simp_all add: signed_in_session_eq no_faults_def)
  have b: "isLoggedIn pending_session \<noteq> Some True" by (simp add: pending_session_eq)
  have c: "address (signed_in_session\<lparr>address := None\<rparr>) = None"
    and c2: "isLoggedIn (signed_in_session\<lparr>address := None\<rparr>) = Some True"
    by (simp_all add: signed_in_session_eq)
  have d: "load_fails (no_faults\<lparr>load_fails := True\<rparr>)" by simp
  have e: "chainId signed_in_session = Some (JsonNumber 1)" "signedInAt signed_in_session = Some 1000"
    by (simp_all add: signed_in_session_eq)
  note t1 = check_session_shape [of no_faults signed_in_session "''0xABCD''"]
  note t2 = check_session_shape [of no_faults pending_session "''0xABCD''"]
  note t3 = check_session_shape [of no_faults "signed_in_session\<lparr>address := None\<rparr>" "''0xABCD''"]
  note t4 = check_session_shape [of "no_faults\<lparr>load_fails := True\<rparr>" signed_in_session "''0xABCD''"]
  have g1: "GET_session no_faults signed_in_session =
     \<lparr>address = Some ''0xABCD'', chainId = Some (JsonNumber 1), nonce = None, isLoggedIn = Some True,
      signedInAt = Some 1000\<rparr>"
    using t1 a a2 a3 a4 e by metis
  have g0: "GET_session no_faults signed_in_session \<noteq> defaultSession"
    unfolding g1 by (rule authenticated_not_default)
  have g2: "GET_session no_faults pending_session = defaultSession"
    using t2 b by blast
  have g3: "GET_session no_faults (signed_in_session\<lparr>address := None\<rparr>) = defaultSession"
    using t3 c by blast
  have g4: "GET_session (no_faults\<lparr>load_fails := True\<rparr>) signed_in_session = defaultSession"
    using t4 d by blast
  from g0 g1 g2 g3 g4 a a2 a3 a4 b c c2 d show ?thesis by blast
qed

subsection \<open>The session secret\<close>

text \<open>
  C7: a secret that is provided (a non-empty value of \<^verbatim>\<open>IRON_SESSION_SECRET\<close>; the code
  takes the empty string as no secret) and is shorter than 32 characters makes
  \<^verbatim>\<open>getSessionPassword\<close> throw, in every deployment, and with it the construction of
  \<^verbatim>\<open>sessionOptions\<close> when the module is loaded; a secret of 32 characters or more is
  the password. Without a secret, a production deployment throws at the same place, and
  any other deployment takes the fixed development key. In particular a production
  deployment with a secret of 16 characters throws.
\<close>

theorem session_secret_rules:
  "(s \<noteq> [] \<longrightarrow> length s < 32 \<longrightarrow>
      getSessionPassword (Some s) node_env = Inl SecretTooShort \<and>
      sessionOptions (Some s) node_env = Inl SecretTooShort) \<and>
   (32 \<le> length s \<longrightarrow> getSessionPassword (Some s) node_env = Inr s) \<and>
   (\<not> truthy_string secret \<longrightarrow>
      getSessionPassword secret (Some ''production'') = Inl SecretRequired \<and>
      sessionOptions secret (Some ''production'') = Inl SecretRequired) \<and>
   (\<not> truthy_string secret \<longrightarrow> node_env \<noteq> Some ''production'' \<longrightarrow>
      getSessionPassword secret node_env =
        Inr ''complex_password_at_least_32_characters_long_for_dev'') \<and>
   (length s = 16 \<longrightarrow>
      getSessionPassword (Some s) (Some ''production'') = Inl SecretTooShort \<and>
      sessionOptions (Some s) (Some ''production'') = Inl SecretTooShort)"
proof -
  have short: "getSessionPassword (Some s) env = Inl SecretTooShort \<and>
      sessionOptions (Some s) env = Inl SecretTooShort"
    if "s \<noteq> []" "length s < 32" for env
    using that by (simp add: getSessionPassword_def sessionOptions_def truthy_string_def)
  have long: "getSessionPassword (Some s) node_env = Inr s" if "32 \<le> length s"
    using that by (auto simp: getSessionPassword_def truthy_string_def)
  have prod: "getSessionPassword secret (Some ''production'') = Inl SecretRequired \<and>
      sessionOptions secret (Some ''production'') = Inl SecretRequired"
    if "\<not> truthy_string secret"
    using that by (simp add: getSessionPassword_def sessionOptions_def)
  have dev: "getSessionPassword secret node_env =
        Inr ''complex_password_at_least_32_characters_long_for_dev''"
    if "\<not> truthy_string secret" "node_env \<noteq> Some ''production''"
    using that by (simp add: getSessionPassword_def dev_secret_def)
  have sixteen: "getSessionPassword (Some s) (Some ''production'') = Inl SecretTooShort \<and>
      sessionOptions (Some s) (Some ''production'') = Inl SecretTooShort"
    if "length s = 16"
  proof -
    from that have "s \<noteq> []" "length s < 32" by auto
    then show ?thesis by (rule short)
  qed
  from short long prod dev sixteen show ?thesis by blast
qed

theorem session_secret_rules_witness:
  "''0123456789abcdef'' \<noteq> [] \<and> length ''0123456789abcdef'' = 16 \<and>
   length ''0123456789abcdef'' < 32 \<and>
   getSessionPassword (Some ''0123456789abcdef'') (Some ''production'') = Inl SecretTooShort \<and>
   sessionOptions (Some ''0123456789abcdef'') (Some ''production'') = Inl SecretTooShort \<and>
   getSessionPassword (Some ''0123456789abcdef'') (Some ''development'') =
     Inl SecretTooShort \<and>
   32 \<le> length ''0123456789abcdef0123456789abcdef'' \<and>
   getSessionPassword (Some ''0123456789abcdef0123456789abcdef'') (Some ''production'') =
     Inr ''0123456789abcdef0123456789abcdef'' \<and>
   \<not> truthy_string None \<and>
   getSessionPassword None (Some ''production'') = Inl SecretRequired \<and>
   sessionOptions None (Some ''production'') = Inl SecretRequired \<and>
   Some ''development'' \<noteq> Some ''production'' \<and>
   getSessionPassword None (Some ''development'') =
     Inr ''complex_password_at_least_32_characters_long_for_dev''"
proof -
  have a: "''0123456789abcdef'' \<noteq> []" and a2: "length ''0123456789abcdef'' < 32"
    and a3: "length ''0123456789abcdef'' = 16" by simp_all
  have b: "32 \<le> length ''0123456789abcdef0123456789abcdef''" by simp
  have c: "\<not> truthy_string None" by (simp add: truthy_string_def)
  have d: "Some ''development'' \<noteq> Some ''production''" by simp
  note t1 = session_secret_rules [of "''0123456789abcdef''" "Some ''production''" None]
  note t2 = session_secret_rules [of "''0123456789abcdef0123456789abcdef''"
      "Some ''production''" None]
  note t3 = session_secret_rules [of "''0123456789abcdef''" "Some ''development''" None]
  from t1 a a2 have r1:
    "getSessionPassword (Some ''0123456789abcdef'') (Some ''production'') = Inl SecretTooShort"
    "sessionOptions (Some ''0123456789abcdef'') (Some ''production'') = Inl SecretTooShort"
    by blast+
  from t3 a a2 have r2:
    "getSessionPassword (Some ''0123456789abcdef'') (Some ''development'') = Inl SecretTooShort"
    by blast
  from t2 b have r3:
    "getSessionPassword (Some ''0123456789abcdef0123456789abcdef'') (Some ''production'') =
     Inr ''0123456789abcdef0123456789abcdef''"
    by blast
  from t1 c have r4: "getSessionPassword None (Some ''production'') = Inl SecretRequired"
    "sessionOptions None (Some ''production'') = Inl SecretRequired"
    by blast+
  from t3 c d have r5: "getSessionPassword None (Some ''development'') =
     Inr ''complex_password_at_least_32_characters_long_for_dev''"
    by blast
  from a a2 a3 b c d r1 r2 r3 r4 r5 show ?thesis by blast
qed

subsection \<open>The client of the verification\<close>

lemma supported_chain_id: "SUPPORTED_CHAINS ids c = Some ch \<Longrightarrow> ids ch = c"
  by (auto simp: SUPPORTED_CHAINS_def split: if_splits)

lemma viem_zero_unsupported: "SUPPORTED_CHAINS viem_chain_id 0 = None"
  by (simp add: SUPPORTED_CHAINS_def)

lemma verify_message_oracle:
  assumes "\<And>parsed. parseSiweMessage env message = Some parsed \<Longrightarrow>
             oracle (getPublicClientForChain (chain_id env) (m_chainId parsed)) message
               signature (case host request of None \<Rightarrow> [] | Some h \<Rightarrow> h) storedNonce =
             verifySiweMessage env
               (getPublicClientForChain (chain_id env) (m_chainId parsed)) message
               signature (case host request of None \<Rightarrow> [] | Some h \<Rightarrow> h) storedNonce"
  shows "verify_message (env\<lparr>verifySiweMessage := oracle\<rparr>) request session storedNonce
           message signature =
         verify_message env request session storedNonce message signature"
  using assms by (simp add: verify_message_def Let_def split: option.splits)

text \<open>
  C9: \<^verbatim>\<open>getPublicClientForChain\<close> gives the client of mainnet for a message without a
  chain id and for a chain id that is not a key of \<^verbatim>\<open>SUPPORTED_CHAINS\<close> (\<^verbatim>\<open>Infinity\<close>
  among them), and for a key of the table the client of the chain whose id is that key.
  This holds for the ids that viem publishes, and for any ids when the key is not 0, which
  the function takes as no chain id. The route verifies with that client: for a request
  that reaches the verification, the response is the success exactly when the verifier,
  called with the selected client, the message, the signature, the host and the stored
  nonce, answers true, and it is the 400 of the diagnosis otherwise; and replacing the
  verifier by one that agrees with it on the selected client changes no response.
\<close>

theorem verification_oracle_selection:
  "getPublicClientForChain ids None = mainnet \<and>
   getPublicClientForChain ids (Some Infinity) = mainnet \<and>
   (SUPPORTED_CHAINS ids c = None \<longrightarrow>
      getPublicClientForChain ids (Some (Finite c)) = mainnet) \<and>
   (SUPPORTED_CHAINS ids c = Some ch \<longrightarrow> c \<noteq> 0 \<longrightarrow>
      getPublicClientForChain ids (Some (Finite c)) = ch \<and> ids ch = c) \<and>
   (SUPPORTED_CHAINS viem_chain_id c = Some ch \<longrightarrow>
      getPublicClientForChain viem_chain_id (Some (Finite c)) = ch \<and>
      viem_chain_id ch = c) \<and>
   (body request = Some (Some (JStr message), Some (JStr signature)) \<longrightarrow>
    message \<noteq> [] \<longrightarrow> signature \<noteq> [] \<longrightarrow> \<not> load_fails (session_faults env) \<longrightarrow>
    nonce cookie = Some storedNonce \<longrightarrow> storedNonce \<noteq> [] \<longrightarrow>
    parseSiweMessage env message = Some parsed \<longrightarrow>
    host request = Some domain \<longrightarrow> domain \<noteq> [] \<longrightarrow> \<not> save_fails (session_faults env) \<longrightarrow>
      POST_verify env request cookie =
        (if verifySiweMessage env
              (getPublicClientForChain (chain_id env) (m_chainId parsed))
              message signature domain storedNonce = Some True
         then (VerifyOk (m_address parsed) (map_option to_json (m_chainId parsed))
                 (date_now env),
               Saved (cookie\<lparr>address := m_address parsed,
                        chainId := map_option to_json (m_chainId parsed),
                        isLoggedIn := Some True, signedInAt := Some (date_now env),
                        nonce := None\<rparr>))
         else (VerifyError 400
                 (getVerificationErrorMessage parsed domain storedNonce
                    (diagnosis_now env)),
               Unchanged))) \<and>
   ((\<forall>message parsed signature domain n.
        parseSiweMessage env message = Some parsed \<longrightarrow>
        oracle (getPublicClientForChain (chain_id env) (m_chainId parsed)) message signature
          domain n =
        verifySiweMessage env (getPublicClientForChain (chain_id env) (m_chainId parsed))
          message signature domain n) \<longrightarrow>
      POST_verify (env\<lparr>verifySiweMessage := oracle\<rparr>) request cookie =
      POST_verify env request cookie)"
proof -
  have none: "getPublicClientForChain ids None = mainnet"
    by (simp add: getPublicClientForChain_def truthy_number_def)
  have inf: "getPublicClientForChain ids (Some Infinity) = mainnet"
    by (simp add: getPublicClientForChain_def truthy_number_def)
  have unsupported: "getPublicClientForChain ids (Some (Finite c)) = mainnet"
    if "SUPPORTED_CHAINS ids c = None"
    using that by (simp add: getPublicClientForChain_def truthy_number_def)
  have supported: "getPublicClientForChain ids' (Some (Finite c)) = ch \<and> ids' ch = c"
    if "SUPPORTED_CHAINS ids' c = Some ch" "c \<noteq> 0" for ids'
    using that supported_chain_id [of ids' c ch]
    by (simp add: getPublicClientForChain_def truthy_number_def)
  have viem: "getPublicClientForChain viem_chain_id (Some (Finite c)) = ch \<and>
      viem_chain_id ch = c"
    if "SUPPORTED_CHAINS viem_chain_id c = Some ch"
  proof -
    from that viem_zero_unsupported have "c \<noteq> 0" by (cases "c = 0") simp_all
    with that show ?thesis by (rule supported)
  qed
  have used: "POST_verify env request cookie =
        (if verifySiweMessage env
              (getPublicClientForChain (chain_id env) (m_chainId parsed))
              message signature domain storedNonce = Some True
         then (VerifyOk (m_address parsed) (map_option to_json (m_chainId parsed))
                 (date_now env),
               Saved (cookie\<lparr>address := m_address parsed,
                        chainId := map_option to_json (m_chainId parsed),
                        isLoggedIn := Some True, signedInAt := Some (date_now env),
                        nonce := None\<rparr>))
         else (VerifyError 400
                 (getVerificationErrorMessage parsed domain storedNonce
                    (diagnosis_now env)),
               Unchanged))"
    if h: "body request = Some (Some (JStr message), Some (JStr signature))"
      "message \<noteq> []" "signature \<noteq> []" "\<not> load_fails (session_faults env)"
      "nonce cookie = Some storedNonce" "storedNonce \<noteq> []"
      and p: "parseSiweMessage env message = Some parsed"
      and d: "host request = Some domain" "domain \<noteq> []"
      and sv: "\<not> save_fails (session_faults env)"
  proof (cases "verifySiweMessage env
              (getPublicClientForChain (chain_id env) (m_chainId parsed))
              message signature domain storedNonce = Some True")
    case True
    from POST_verify_pending [OF h] verify_message_accepts [OF p d True sv] True
    show ?thesis by simp
  next
    case False
    from POST_verify_pending [OF h] verify_message_rejects [OF p d False] False
    show ?thesis by simp
  qed
  have post: "POST_verify (env\<lparr>verifySiweMessage := oracle\<rparr>) request cookie =
      POST_verify env request cookie"
    if "\<forall>message parsed signature domain n.
        parseSiweMessage env message = Some parsed \<longrightarrow>
        oracle (getPublicClientForChain (chain_id env) (m_chainId parsed)) message signature
          domain n =
        verifySiweMessage env (getPublicClientForChain (chain_id env) (m_chainId parsed))
          message signature domain n"
    using that
    by (auto simp: POST_verify_def verify_message_oracle split: option.splits)
  from none inf unsupported supported [of ids] viem used post show ?thesis by blast
qed

lemma alt_oracle_agrees:
  "parseSiweMessage (demo_env 1000) message = Some parsed \<Longrightarrow>
   alt_oracle (getPublicClientForChain (chain_id (demo_env 1000)) (m_chainId parsed)) =
   verifySiweMessage (demo_env 1000)
     (getPublicClientForChain (chain_id (demo_env 1000)) (m_chainId parsed))"
  by (auto simp: demo_env_def demo_parse_def demo_message_def alt_oracle_def
      getPublicClientForChain_def SUPPORTED_CHAINS_def truthy_number_def split: if_splits)

lemma demo_selected_client:
  "getPublicClientForChain (chain_id (demo_env t)) (m_chainId demo_message) = mainnet"
  by (simp add: demo_env_def demo_message_def getPublicClientForChain_def
      SUPPORTED_CHAINS_def truthy_number_def)

lemma demo_verifier_answers:
  "verifySiweMessage (demo_env 1000) mainnet ''signed message'' ''0xsig''
     ''localhost:3000'' ''n1'' = Some True"
  "verifySiweMessage (demo_env 1000) mainnet ''signed message'' ''0xbad''
     ''localhost:3000'' ''n1'' = Some False"
  by (simp_all add: scenario_defs verifySiweMessage_spec_def)

theorem verification_oracle_selection_witness:
  "SUPPORTED_CHAINS viem_chain_id 5 = None \<and>
   getPublicClientForChain viem_chain_id (Some (Finite 5)) = mainnet \<and>
   SUPPORTED_CHAINS viem_chain_id 137 = Some polygon \<and> (137::nat) \<noteq> 0 \<and>
   getPublicClientForChain viem_chain_id (Some (Finite 137)) = polygon \<and>
   viem_chain_id polygon = 137 \<and>
   body demo_request = Some (Some (JStr ''signed message''), Some (JStr ''0xsig'')) \<and>
   ''signed message'' \<noteq> [] \<and> ''0xsig'' \<noteq> [] \<and>
   \<not> load_fails (session_faults (demo_env 1000)) \<and>
   nonce pending_session = Some ''n1'' \<and> ''n1'' \<noteq> [] \<and>
   parseSiweMessage (demo_env 1000) ''signed message'' = Some demo_message \<and>
   host demo_request = Some ''localhost:3000'' \<and> ''localhost:3000'' \<noteq> [] \<and>
   \<not> save_fails (session_faults (demo_env 1000)) \<and>
   getPublicClientForChain (chain_id (demo_env 1000)) (m_chainId demo_message) = mainnet \<and>
   verifySiweMessage (demo_env 1000) mainnet ''signed message'' ''0xsig''
     ''localhost:3000'' ''n1'' = Some True \<and>
   POST_verify (demo_env 1000) demo_request pending_session =
     (VerifyOk (Some ''0xABCD'') (Some (JsonNumber 1)) 1000,
      Saved \<lparr>address = Some ''0xABCD'', chainId = Some (JsonNumber 1), nonce = None,
             isLoggedIn = Some True, signedInAt = Some 1000\<rparr>) \<and>
   verifySiweMessage (demo_env 1000) mainnet ''signed message'' ''0xbad''
     ''localhost:3000'' ''n1'' = Some False \<and>
   POST_verify (demo_env 1000)
     (demo_request\<lparr>body := Some (Some (JStr ''signed message''), Some (JStr ''0xbad''))\<rparr>)
     pending_session =
     (VerifyError 400
        ''Invalid signature. The message was not signed by the claimed address.'',
      Unchanged) \<and>
   alt_oracle mainnet = verifySiweMessage (demo_env 1000) mainnet \<and>
   alt_oracle polygon ''signed message'' ''0xbad'' ''localhost:3000'' ''n1'' \<noteq>
     verifySiweMessage (demo_env 1000) polygon ''signed message'' ''0xbad''
       ''localhost:3000'' ''n1'' \<and>
   POST_verify ((demo_env 1000)\<lparr>verifySiweMessage := alt_oracle\<rparr>) demo_request
     pending_session =
   POST_verify (demo_env 1000) demo_request pending_session"
proof -
  let ?bad = "demo_request\<lparr>body := Some (Some (JStr ''signed message''),
                                       Some (JStr ''0xbad''))\<rparr>"
  have u: "SUPPORTED_CHAINS viem_chain_id 5 = None" by (simp add: SUPPORTED_CHAINS_def)
  have s: "SUPPORTED_CHAINS viem_chain_id 137 = Some polygon"
    by (simp add: SUPPORTED_CHAINS_def)
  have nz: "(137::nat) \<noteq> 0" by simp
  have b: "body demo_request = Some (Some (JStr ''signed message''), Some (JStr ''0xsig''))"
    and b': "body ?bad = Some (Some (JStr ''signed message''), Some (JStr ''0xbad''))"
    and h: "host demo_request = Some ''localhost:3000''"
    and h': "host ?bad = Some ''localhost:3000''"
    by (simp_all add: demo_request_def)
  have ne: "''signed message'' \<noteq> []" "''0xsig'' \<noteq> []" "''0xbad'' \<noteq> []" "''n1'' \<noteq> []"
    "''localhost:3000'' \<noteq> []" by simp_all
  have lf: "\<not> load_fails (session_faults (demo_env 1000))"
    and sf: "\<not> save_fails (session_faults (demo_env 1000))"
    by (simp_all add: demo_env_def no_faults_def)
  have st: "nonce pending_session = Some ''n1''" by (simp add: pending_session_eq)
  have pm: "parseSiweMessage (demo_env 1000) ''signed message'' = Some demo_message"
    by (simp add: demo_env_def demo_parse_def)
  have cl: "getPublicClientForChain (chain_id (demo_env 1000)) (m_chainId demo_message) =
            mainnet"
    by (rule demo_selected_client)
  note va = demo_verifier_answers
  have agree: "\<forall>message parsed signature domain n.
        parseSiweMessage (demo_env 1000) message = Some parsed \<longrightarrow>
        alt_oracle (getPublicClientForChain (chain_id (demo_env 1000)) (m_chainId parsed))
          message signature domain n =
        verifySiweMessage (demo_env 1000)
          (getPublicClientForChain (chain_id (demo_env 1000)) (m_chainId parsed))
          message signature domain n"
    using alt_oracle_agrees by simp
  have m: "alt_oracle mainnet = verifySiweMessage (demo_env 1000) mainnet"
    by (simp add: alt_oracle_def)
  have p: "alt_oracle polygon ''signed message'' ''0xbad'' ''localhost:3000'' ''n1'' \<noteq>
     verifySiweMessage (demo_env 1000) polygon ''signed message'' ''0xbad''
       ''localhost:3000'' ''n1''"
    by (simp add: alt_oracle_def scenario_defs verifySiweMessage_spec_def)
  have fields: "m_address demo_message = Some ''0xABCD''"
    "m_chainId demo_message = Some (Finite 1)" "date_now (demo_env 1000) = 1000"
    "diagnosis_now (demo_env 1000) = 1000"
    by (simp_all add: demo_message_def demo_env_def)
  have diag: "getVerificationErrorMessage demo_message ''localhost:3000'' ''n1'' 1000 =
      ''Invalid signature. The message was not signed by the claimed address.''"
    by (simp add: getVerificationErrorMessage_def demo_message_def date_lt_def
        truthy_string_def truthy_number_def)
  note t1 = verification_oracle_selection [of viem_chain_id 5 polygon demo_request
      "''signed message''" "''0xsig''" "demo_env 1000" pending_session "''n1''" demo_message
      "''localhost:3000''" alt_oracle]
  note t2 = verification_oracle_selection [of viem_chain_id 137 polygon ?bad
      "''signed message''" "''0xbad''" "demo_env 1000" pending_session "''n1''" demo_message
      "''localhost:3000''" alt_oracle]
  from t1 u have r1: "getPublicClientForChain viem_chain_id (Some (Finite 5)) = mainnet"
    by blast
  from t2 s nz have r2: "getPublicClientForChain viem_chain_id (Some (Finite 137)) = polygon"
    and r3: "viem_chain_id polygon = 137" by blast+
  from t1 agree have r4:
    "POST_verify ((demo_env 1000)\<lparr>verifySiweMessage := alt_oracle\<rparr>) demo_request
       pending_session =
     POST_verify (demo_env 1000) demo_request pending_session"
    by blast
  from t1 b ne lf st pm h sf have r5:
    "POST_verify (demo_env 1000) demo_request pending_session =
        (if verifySiweMessage (demo_env 1000)
              (getPublicClientForChain (chain_id (demo_env 1000)) (m_chainId demo_message))
              ''signed message'' ''0xsig'' ''localhost:3000'' ''n1'' = Some True
         then (VerifyOk (m_address demo_message)
                 (map_option to_json (m_chainId demo_message)) (date_now (demo_env 1000)),
               Saved (pending_session\<lparr>address := m_address demo_message,
                        chainId := map_option to_json (m_chainId demo_message),
                        isLoggedIn := Some True,
                        signedInAt := Some (date_now (demo_env 1000)),
                        nonce := None\<rparr>))
         else (VerifyError 400
                 (getVerificationErrorMessage demo_message ''localhost:3000'' ''n1''
                    (diagnosis_now (demo_env 1000))),
               Unchanged))"
    by blast
  from t2 b' ne lf st pm h' sf have r6:
    "POST_verify (demo_env 1000) ?bad pending_session =
        (if verifySiweMessage (demo_env 1000)
              (getPublicClientForChain (chain_id (demo_env 1000)) (m_chainId demo_message))
              ''signed message'' ''0xbad'' ''localhost:3000'' ''n1'' = Some True
         then (VerifyOk (m_address demo_message)
                 (map_option to_json (m_chainId demo_message)) (date_now (demo_env 1000)),
               Saved (pending_session\<lparr>address := m_address demo_message,
                        chainId := map_option to_json (m_chainId demo_message),
                        isLoggedIn := Some True,
                        signedInAt := Some (date_now (demo_env 1000)),
                        nonce := None\<rparr>))
         else (VerifyError 400
                 (getVerificationErrorMessage demo_message ''localhost:3000'' ''n1''
                    (diagnosis_now (demo_env 1000))),
               Unchanged))"
    by blast
  have r5': "POST_verify (demo_env 1000) demo_request pending_session =
     (VerifyOk (Some ''0xABCD'') (Some (JsonNumber 1)) 1000,
      Saved \<lparr>address = Some ''0xABCD'', chainId = Some (JsonNumber 1), nonce = None,
             isLoggedIn = Some True, signedInAt = Some 1000\<rparr>)"
    unfolding r5 cl by (simp add: va fields pending_session_eq)
  have r6': "POST_verify (demo_env 1000) ?bad pending_session =
     (VerifyError 400
        ''Invalid signature. The message was not signed by the claimed address.'',
      Unchanged)"
    unfolding r6 cl by (simp add: va fields diag)
  from u s nz b ne lf st pm h sf cl va m p r1 r2 r3 r4 r5' r6' show ?thesis by blast
qed

section \<open>Properties of the hook\<close>

lemma seen_after_iff: "seen_after history = (True \<in> set history)"
proof -
  have "fold track_wallet history b = (b \<or> True \<in> set history)" for b
    by (induction history arbitrary: b) (auto simp: track_wallet_def)
  then show ?thesis by (simp add: seen_after_def)
qed

lemma fold_sign_out_ok:
  "fold (\<lambda>_. signOut (Responded True)) calls s = (if calls = [] then s else signedOutState)"
  by (induction calls arbitrary: s) (simp_all add: signOut_def)

lemma reconcile_ok:
  assumes "auto_logout state w (track_wallet (isConnected w) seen) \<noteq> []"
  shows "fst (reconcile (Responded True) w (state, seen)) = signedOutState"
  using assms by (simp add: reconcile_def Let_def fold_sign_out_ok)

lemma lower_1234: "toLowerCase ''0x1234'' = ''0x1234''"
  by (simp add: toLowerCase_def lower_char_def)

lemma lower_ABCD: "toLowerCase ''0xABCD'' = ''0xabcd''"
  by (simp add: toLowerCase_def lower_char_def)

lemma demo_auto_logout: "auto_logout demo_state other_wallet seen = [AddressChanged]"
  by (simp add: auto_logout_def demo_state_def other_wallet_def truthy_string_def
      lower_1234 lower_ABCD)

text \<open>
  C8, as the specification states it: a SignedIn state with a mismatched connected address
  never persists past one reconciliation cycle. In the scenario the hook is signed in
  with one address and the wallet is connected with another. The auto-logout effect calls
  \<^verbatim>\<open>signOut()\<close>; the \<^verbatim>\<open>DELETE\<close> request is answered with a status that is not ok, and
  \<^verbatim>\<open>signOut\<close> keeps the state, with an error: after the cycle the hook is signed in
  with the same address, and the wallet's address differs from it as before.
\<close>

theorem failed_sign_out_stays_signed_in:
  "isSignedIn demo_state \<and> st_address demo_state = Some ''0xABCD'' \<and>
   connectedAddress other_wallet = Some ''0x1234'' \<and>
   toLowerCase ''0x1234'' \<noteq> toLowerCase ''0xABCD'' \<and>
   auto_logout demo_state other_wallet False = [AddressChanged] \<and>
   fst (reconcile (Responded False) other_wallet (demo_state, False)) =
     demo_state\<lparr>st_error := Some ''Failed to sign out''\<rparr> \<and>
   isSignedIn (fst (reconcile (Responded False) other_wallet (demo_state, False))) \<and>
   st_address (fst (reconcile (Responded False) other_wallet (demo_state, False))) =
     Some ''0xABCD''"
proof -
  have r: "fst (reconcile (Responded False) other_wallet (demo_state, False)) =
     demo_state\<lparr>st_error := Some ''Failed to sign out''\<rparr>"
    by (simp add: reconcile_def Let_def demo_auto_logout signOut_def)
       (simp add: demo_state_def)
  show ?thesis
    unfolding r by (simp add: demo_auto_logout lower_1234 lower_ABCD)
       (simp add: demo_state_def other_wallet_def)
qed

text \<open>
  C8, amended: while the hook is signed in, the auto-logout effect calls \<^verbatim>\<open>signOut()\<close>
  when the wallet's address and the session's address are both non-empty and differ
  without regard to case, and when the wallet is not connected and the tracking effect
  has seen it connected at least once. When the \<^verbatim>\<open>DELETE\<close> request of that
  \<^verbatim>\<open>signOut()\<close> is answered ok, the state after the cycle is the signed-out one, with
  no address. (When the request fails, \<^verbatim>\<open>signOut\<close> keeps the signed-in state.)
\<close>

theorem auto_logout_triggers:
  "(isSignedIn state \<longrightarrow> connectedAddress w = Some connected \<longrightarrow> connected \<noteq> [] \<longrightarrow>
    st_address state = Some bound \<longrightarrow> bound \<noteq> [] \<longrightarrow>
    toLowerCase connected \<noteq> toLowerCase bound \<longrightarrow>
      AddressChanged \<in> set (auto_logout state w seen) \<and>
      fst (reconcile (Responded True) w (state, seen)) = signedOutState) \<and>
   (isSignedIn state \<longrightarrow> \<not> isConnected w \<longrightarrow> True \<in> set history \<longrightarrow>
      WalletDisconnected \<in> set (auto_logout state w (seen_after history)) \<and>
      fst (reconcile (Responded True) w (state, seen_after history)) = signedOutState) \<and>
   \<not> isSignedIn signedOutState \<and> st_address signedOutState = None"
proof -
  have addr: "AddressChanged \<in> set (auto_logout state w seen) \<and>
      fst (reconcile (Responded True) w (state, seen)) = signedOutState"
    if "isSignedIn state" "connectedAddress w = Some connected" "connected \<noteq> []"
       "st_address state = Some bound" "bound \<noteq> []"
       "toLowerCase connected \<noteq> toLowerCase bound"
  proof -
    have trig: "AddressChanged \<in> set (auto_logout state w b)" for b
      using that by (simp add: auto_logout_def truthy_string_def)
    have "auto_logout state w (track_wallet (isConnected w) seen) \<noteq> []"
      using trig [of "track_wallet (isConnected w) seen"] by auto
    from reconcile_ok [OF this] trig [of seen] show ?thesis by simp
  qed
  have disc: "WalletDisconnected \<in> set (auto_logout state w (seen_after history)) \<and>
      fst (reconcile (Responded True) w (state, seen_after history)) = signedOutState"
    if "isSignedIn state" "\<not> isConnected w" "True \<in> set history"
  proof -
    have seen: "seen_after history" using that(3) by (simp add: seen_after_iff)
    have "\<exists>calls. auto_logout state w (seen_after history) = calls @ [WalletDisconnected]"
      using that seen by (simp add: auto_logout_def)
    then obtain calls where
      "auto_logout state w (seen_after history) = calls @ [WalletDisconnected]" ..
    then have trig: "WalletDisconnected \<in> set (auto_logout state w (seen_after history))"
      by simp
    have same: "track_wallet (isConnected w) (seen_after history) = seen_after history"
      using that(2) by (simp add: track_wallet_def)
    have "auto_logout state w (track_wallet (isConnected w) (seen_after history)) \<noteq> []"
      unfolding same using trig by auto
    from reconcile_ok [OF this] trig show ?thesis by simp
  qed
  have out: "\<not> isSignedIn signedOutState \<and> st_address signedOutState = None"
    by (simp add: signedOutState_def)
  from addr disc out show ?thesis by blast
qed

theorem auto_logout_triggers_witness:
  "isSignedIn demo_state \<and> connectedAddress other_wallet = Some ''0x1234'' \<and>
   ''0x1234'' \<noteq> [] \<and> st_address demo_state = Some ''0xABCD'' \<and> ''0xABCD'' \<noteq> [] \<and>
   toLowerCase ''0x1234'' \<noteq> toLowerCase ''0xABCD'' \<and>
   AddressChanged \<in> set (auto_logout demo_state other_wallet False) \<and>
   fst (reconcile (Responded True) other_wallet (demo_state, False)) = signedOutState \<and>
   \<not> isConnected \<lparr>connectedAddress = None, isConnected = False\<rparr> \<and>
   True \<in> set [False, True, False] \<and>
   WalletDisconnected \<in>
     set (auto_logout demo_state \<lparr>connectedAddress = None, isConnected = False\<rparr>
            (seen_after [False, True, False])) \<and>
   fst (reconcile (Responded True) \<lparr>connectedAddress = None, isConnected = False\<rparr>
          (demo_state, seen_after [False, True, False])) = signedOutState"
proof -
  have a1: "isSignedIn demo_state" and a4: "st_address demo_state = Some ''0xABCD''"
    by (simp_all add: demo_state_def)
  have a2: "connectedAddress other_wallet = Some ''0x1234''"
    by (simp add: other_wallet_def)
  have a3: "''0x1234'' \<noteq> []" and a5: "''0xABCD'' \<noteq> []" by simp_all
  have a6: "toLowerCase ''0x1234'' \<noteq> toLowerCase ''0xABCD''"
    by (simp add: lower_1234 lower_ABCD)
  have b1: "\<not> isConnected \<lparr>connectedAddress = None, isConnected = False\<rparr>" by simp
  have b2: "True \<in> set [False, True, False]" by simp
  note t1 = auto_logout_triggers [of demo_state other_wallet "''0x1234''" "''0xABCD''" False
      "[False, True, False]"]
  note t2 = auto_logout_triggers [of demo_state
      "\<lparr>connectedAddress = None, isConnected = False\<rparr>" "''0x1234''" "''0xABCD''" False
      "[False, True, False]"]
  from t1 a1 a2 a3 a4 a5 a6 have r1:
    "AddressChanged \<in> set (auto_logout demo_state other_wallet False)"
    "fst (reconcile (Responded True) other_wallet (demo_state, False)) = signedOutState"
    by blast+
  from t2 a1 b1 b2 have r2:
    "WalletDisconnected \<in>
       set (auto_logout demo_state \<lparr>connectedAddress = None, isConnected = False\<rparr>
              (seen_after [False, True, False]))"
    "fst (reconcile (Responded True) \<lparr>connectedAddress = None, isConnected = False\<rparr>
          (demo_state, seen_after [False, True, False])) = signedOutState"
    by blast+
  from a1 a2 a3 a4 a5 a6 b1 b2 r1 r2 show ?thesis by blast
qed

end
